theory Spec2Isabelle
  imports Complex_Main
begin

section \<open>Python values\<close>

text \<open>
  The bridge (\<^verbatim>\<open>bridge.py\<close>) polls four venues over HTTP and the bot
  (\<^verbatim>\<open>telegram_bot.py\<close>) reads quotes out of chat messages; both turn what they
  receive into one dictionary shape and insert batches of them into a table.

  A Python \<^verbatim>\<open>str\<close> is a sequence of code points, modelled as a list of naturals, so
  that the message text may hold any character. Identifiers that the code writes as ASCII
  literals (sources, symbols) are Isabelle strings; \<open>str\<close> reads such a literal as a
  Python string.

  A Python \<^verbatim>\<open>float\<close> is modelled as a real number: rounding and the values
  \<^verbatim>\<open>inf\<close> and \<^verbatim>\<open>nan\<close> are outside the model. Where the code subtracts two
  clock readings, the subtraction of doubles is a parameter, since it is not the exact
  difference.
\<close>

type_synonym pystr = "nat list"

definition str :: "string \<Rightarrow> pystr" where
  "str s = map of_char s"

text \<open>What \<^verbatim>\<open>response.json()\<close> returns: a decoded JSON document.\<close>

datatype json =
    JNull
  | JBool bool
  | JNum real
  | JStr pystr
  | JArr "json list"
  | JObj "(pystr \<times> json) list"

text \<open>
  The exceptions of the model, all subclasses of \<^verbatim>\<open>Exception\<close>.
  \<open>RequestException\<close> stands for a failed request or an undecodable body.
  A computation that may raise returns \<open>error + 'a\<close>, with \<open>Inl\<close> the exception.
\<close>

datatype error =
  TypeError | ValueError | KeyError | AttributeError | OverflowError | RequestException

text \<open>Truth value of an object in a condition.\<close>

fun truthy :: "json \<Rightarrow> bool" where
  "truthy JNull = False"
| "truthy (JBool b) = b"
| "truthy (JNum r) = (r \<noteq> 0)"
| "truthy (JStr s) = (s \<noteq> [])"
| "truthy (JArr xs) = (xs \<noteq> [])"
| "truthy (JObj kvs) = (kvs \<noteq> [])"

fun strip_prefix :: "pystr \<Rightarrow> pystr \<Rightarrow> pystr option" where
  "strip_prefix [] s = Some s"
| "strip_prefix (p # ps) [] = None"
| "strip_prefix (p # ps) (c # cs) = (if p = c then strip_prefix ps cs else None)"

text \<open>\<^verbatim>\<open>k in s\<close> on two strings: \<open>k\<close> occurs in \<open>s\<close>.\<close>

fun contains :: "pystr \<Rightarrow> pystr \<Rightarrow> bool" where
  "contains k [] = (k = [])"
| "contains k (c # cs) = (strip_prefix k (c # cs) \<noteq> None \<or> contains k cs)"

text \<open>
  \<^verbatim>\<open>k in data\<close> for a string \<open>k\<close>: a key of a dictionary, an element of a list, a
  substring of a string; any other object is not iterable.
\<close>

fun py_in :: "pystr \<Rightarrow> json \<Rightarrow> error + bool" where
  "py_in k (JObj kvs) = Inr (k \<in> set (map fst kvs))"
| "py_in k (JArr xs) = Inr (JStr k \<in> set xs)"
| "py_in k (JStr s) = Inr (contains k s)"
| "py_in k _ = Inl TypeError"

text \<open>\<^verbatim>\<open>data[k]\<close> for a string \<open>k\<close>: only a dictionary takes a string as subscript.\<close>

fun py_getitem :: "json \<Rightarrow> pystr \<Rightarrow> error + json" where
  "py_getitem (JObj kvs) k = (case map_of kvs k of None \<Rightarrow> Inl KeyError | Some v \<Rightarrow> Inr v)"
| "py_getitem _ k = Inl TypeError"

text \<open>\<^verbatim>\<open>data.get(k)\<close>: a method of dictionaries only.\<close>

fun py_get :: "json \<Rightarrow> pystr \<Rightarrow> error + json" where
  "py_get (JObj kvs) k = Inr (case map_of kvs k of None \<Rightarrow> JNull | Some v \<Rightarrow> v)"
| "py_get _ k = Inl AttributeError"

text \<open>
  \<^verbatim>\<open>x[:5]\<close>: the first five items of a list or of a string. A dictionary rejects the
  slice (with \<^verbatim>\<open>TypeError\<close> or \<^verbatim>\<open>KeyError\<close>, by interpreter version).
\<close>

fun slice5 :: "json \<Rightarrow> error + json" where
  "slice5 (JArr xs) = Inr (JArr (take 5 xs))"
| "slice5 (JStr s) = Inr (JStr (take 5 s))"
| "slice5 _ = Inl TypeError"

text \<open>
  The items a \<^verbatim>\<open>for\<close> or an unpacking sees: the elements of a list, the characters
  of a string, the keys of a dictionary.
\<close>

fun py_iter :: "json \<Rightarrow> error + json list" where
  "py_iter (JArr xs) = Inr xs"
| "py_iter (JStr s) = Inr (map (\<lambda>c. JStr [c]) s)"
| "py_iter (JObj kvs) = Inr (map (\<lambda>kv. JStr (fst kv)) kvs)"
| "py_iter _ = Inl TypeError"

text \<open>The target \<^verbatim>\<open>p, v\<close>: exactly two items.\<close>

definition unpack2 :: "json \<Rightarrow> error + json \<times> json" where
  "unpack2 x =
     (case py_iter x of
        Inl e \<Rightarrow> Inl e
      | Inr [p, v] \<Rightarrow> Inr (p, v)
      | Inr _ \<Rightarrow> Inl ValueError)"

text \<open>
  A JSON number is an \<^verbatim>\<open>int\<close> of any size or a \<^verbatim>\<open>float\<close>. The largest double
  is \<open>2 ^ 1024 - 2 ^ 971\<close>; an \<^verbatim>\<open>int\<close> rounds to a double when its magnitude is below
  \<open>2 ^ 1024 - 2 ^ 970\<close>, and \<^verbatim>\<open>float\<close> raises \<^verbatim>\<open>OverflowError\<close> on any other.
\<close>

definition float_overflow :: real where
  "float_overflow = 2 ^ 1024 - 2 ^ 970"

text \<open>
  \<^verbatim>\<open>float(x)\<close>. A number in the range of the doubles converts to itself, a larger one
  (which can only be an \<^verbatim>\<open>int\<close>) raises, and a boolean converts to 1 or 0. How Python
  reads a string as a number (signs, exponents, underscores, digits of other scripts) is
  the parameter \<open>lit\<close>, which answers \<open>None\<close> where Python raises \<^verbatim>\<open>ValueError\<close>:
  what is proved of the connectors holds for every such reading.
\<close>

fun py_float :: "(pystr \<Rightarrow> real option) \<Rightarrow> json \<Rightarrow> error + real" where
  "py_float lit (JNum r) = (if \<bar>r\<bar> < float_overflow then Inr r else Inl OverflowError)"
| "py_float lit (JBool b) = Inr (if b then 1 else 0)"
| "py_float lit (JStr s) = (case lit s of None \<Rightarrow> Inl ValueError | Some r \<Rightarrow> Inr r)"
| "py_float lit _ = Inl TypeError"

section \<open>The record\<close>

text \<open>
  The dictionary every connector builds. \<open>price\<close> is a JSON value because
  \<^verbatim>\<open>fetch_fx\<close> stores the rate as it arrived; elsewhere it is \<open>JNum\<close> of a float or
  \<open>JNull\<close> for \<^verbatim>\<open>None\<close>. A level \<^verbatim>\<open>[price, volume]\<close> of the book is a pair.
\<close>

record book =
  bids :: "(real \<times> real) list"
  asks :: "(real \<times> real) list"

record market_data =
  source :: string
  symbol :: string
  price :: json
  bid :: "real option"
  ask :: "real option"
  order_book :: "book option"
  raw_data :: json

section \<open>bridge.py: the connectors\<close>

text \<open>One pass of \<^verbatim>\<open>[float(p), float(v)] for p, v in ...\<close>.\<close>

definition level :: "(pystr \<Rightarrow> real option) \<Rightarrow> json \<Rightarrow> error + real \<times> real" where
  "level lit e =
     (case unpack2 e of
        Inl x \<Rightarrow> Inl x
      | Inr (p, v) \<Rightarrow>
          (case py_float lit p of
             Inl x \<Rightarrow> Inl x
           | Inr fp \<Rightarrow>
               (case py_float lit v of
                  Inl x \<Rightarrow> Inl x
                | Inr fv \<Rightarrow> Inr (fp, fv))))"

fun level_list :: "(pystr \<Rightarrow> real option) \<Rightarrow> json list \<Rightarrow> error + (real \<times> real) list" where
  "level_list lit [] = Inr []"
| "level_list lit (e # es) =
     (case level lit e of
        Inl x \<Rightarrow> Inl x
      | Inr l \<Rightarrow>
          (case level_list lit es of
             Inl x \<Rightarrow> Inl x
           | Inr ls \<Rightarrow> Inr (l # ls)))"

text \<open>\<^verbatim>\<open>[[float(p), float(v)] for p, v in side[:5]]\<close>.\<close>

definition levels :: "(pystr \<Rightarrow> real option) \<Rightarrow> json \<Rightarrow> error + (real \<times> real) list" where
  "levels lit side =
     (case slice5 side of
        Inl x \<Rightarrow> Inl x
      | Inr s \<Rightarrow>
          (case py_iter s of
             Inl x \<Rightarrow> Inl x
           | Inr es \<Rightarrow> level_list lit es))"

text \<open>\<^verbatim>\<open>side[0][0] if side else None\<close>.\<close>

fun best :: "(real \<times> real) list \<Rightarrow> real option" where
  "best [] = None"
| "best (l # ls) = Some (fst l)"

text \<open>
  \<^verbatim>\<open>(best_bid + best_ask) / 2 if (best_bid and best_ask) else None\<close>: the condition is
  the truth value of the two objects, and the float 0.0 is false like \<^verbatim>\<open>None\<close>.
\<close>

fun mid_price :: "real option \<Rightarrow> real option \<Rightarrow> json" where
  "mid_price (Some b) (Some a) = (if b \<noteq> 0 \<and> a \<noteq> 0 then JNum ((b + a) / 2) else JNull)"
| "mid_price _ _ = JNull"

text \<open>\<^verbatim>\<open>'bids' in data and 'asks' in data\<close>, the second test only after the first.\<close>

definition has_bids_asks :: "json \<Rightarrow> error + bool" where
  "has_bids_asks data =
     (case py_in (str ''bids'') data of
        Inl x \<Rightarrow> Inl x
      | Inr False \<Rightarrow> Inr False
      | Inr True \<Rightarrow> py_in (str ''asks'') data)"

text \<open>
  The body of the \<^verbatim>\<open>if\<close> of both depth connectors, which differ in the two names and
  in the test before it.
\<close>

definition depth_record ::
  "string \<Rightarrow> string \<Rightarrow> (pystr \<Rightarrow> real option) \<Rightarrow> json \<Rightarrow> error + market_data option" where
  "depth_record venue pair lit data =
     (case py_getitem data (str ''bids'') of
        Inl x \<Rightarrow> Inl x
      | Inr bside \<Rightarrow>
          (case levels lit bside of
             Inl x \<Rightarrow> Inl x
           | Inr bl \<Rightarrow>
               (case py_getitem data (str ''asks'') of
                  Inl x \<Rightarrow> Inl x
                | Inr aside \<Rightarrow>
                    (case levels lit aside of
                       Inl x \<Rightarrow> Inl x
                     | Inr al \<Rightarrow>
                         Inr (Some \<lparr>source = venue, symbol = pair,
                                price = mid_price (best bl) (best al),
                                bid = best bl, ask = best al,
                                order_book = Some \<lparr>bids = bl, asks = al\<rparr>,
                                raw_data = data\<rparr>)))))"

text \<open>
  \<^verbatim>\<open>try: ... except Exception as e: print(...)\<close> followed by \<^verbatim>\<open>return None\<close>:
  whatever the body raises, the function returns \<^verbatim>\<open>None\<close>.
\<close>

definition except_none :: "error + 'a option \<Rightarrow> error + 'a option" where
  "except_none body = (case body of Inl x \<Rightarrow> Inr None | Inr r \<Rightarrow> Inr r)"

text \<open>
  Each connector takes what its request gave: an exception, or the decoded document.
\<close>

definition fetch_bitkub :: "(pystr \<Rightarrow> real option) \<Rightarrow> error + json \<Rightarrow> error + market_data option" where
  "fetch_bitkub lit response =
     except_none
       (case response of
          Inl x \<Rightarrow> Inl x
        | Inr data \<Rightarrow>
            if truthy data then
              (case has_bids_asks data of
                 Inl x \<Rightarrow> Inl x
               | Inr False \<Rightarrow> Inr None
               | Inr True \<Rightarrow> depth_record ''bitkub'' ''THB_USDT'' lit data)
            else Inr None)"

definition fetch_binance_th :: "(pystr \<Rightarrow> real option) \<Rightarrow> error + json \<Rightarrow> error + market_data option" where
  "fetch_binance_th lit response =
     except_none
       (case response of
          Inl x \<Rightarrow> Inl x
        | Inr data \<Rightarrow>
            (case has_bids_asks data of
               Inl x \<Rightarrow> Inl x
             | Inr False \<Rightarrow> Inr None
             | Inr True \<Rightarrow> depth_record ''binance_th'' ''USDTTHB'' lit data))"

text \<open>\<^verbatim>\<open>float(res[k])\<close>.\<close>

definition float_field :: "(pystr \<Rightarrow> real option) \<Rightarrow> json \<Rightarrow> pystr \<Rightarrow> error + real" where
  "float_field lit res k =
     (case py_getitem res k of Inl x \<Rightarrow> Inl x | Inr v \<Rightarrow> py_float lit v)"

definition fetch_maxbit :: "(pystr \<Rightarrow> real option) \<Rightarrow> error + json \<Rightarrow> error + market_data option" where
  "fetch_maxbit lit response =
     except_none
       (case response of
          Inl x \<Rightarrow> Inl x
        | Inr data \<Rightarrow>
            (case py_get data (str ''responseCode'') of
               Inl x \<Rightarrow> Inl x
             | Inr code \<Rightarrow>
                 if code = JStr (str ''000'') then
                   (case py_in (str ''result'') data of
                      Inl x \<Rightarrow> Inl x
                    | Inr False \<Rightarrow> Inr None
                    | Inr True \<Rightarrow>
                        (case py_getitem data (str ''result'') of
                           Inl x \<Rightarrow> Inl x
                         | Inr res \<Rightarrow>
                             (case float_field lit res (str ''bid'') of
                                Inl x \<Rightarrow> Inl x
                              | Inr b \<Rightarrow>
                                  (case float_field lit res (str ''ask'') of
                                     Inl x \<Rightarrow> Inl x
                                   | Inr a \<Rightarrow>
                                       Inr (Some \<lparr>source = ''maxbit'', symbol = ''USDT'',
                                              price = JNum ((b + a) / 2),
                                              bid = Some b, ask = Some a,
                                              order_book = None,
                                              raw_data = data\<rparr>)))))
                 else Inr None))"

definition fetch_fx :: "error + json \<Rightarrow> error + market_data option" where
  "fetch_fx response =
     except_none
       (case response of
          Inl x \<Rightarrow> Inl x
        | Inr data \<Rightarrow>
            (case py_in (str ''rates'') data of
               Inl x \<Rightarrow> Inl x
             | Inr False \<Rightarrow> Inr None
             | Inr True \<Rightarrow>
                 (case py_getitem data (str ''rates'') of
                    Inl x \<Rightarrow> Inl x
                  | Inr rates \<Rightarrow>
                      (case py_in (str ''THB'') rates of
                         Inl x \<Rightarrow> Inl x
                       | Inr False \<Rightarrow> Inr None
                       | Inr True \<Rightarrow>
                           (case py_getitem rates (str ''THB'') of
                              Inl x \<Rightarrow> Inl x
                            | Inr rate \<Rightarrow>
                                Inr (Some \<lparr>source = ''fx'', symbol = ''USD_THB'',
                                       price = rate,
                                       bid = None, ask = None,
                                       order_book = None,
                                       raw_data = data\<rparr>))))))"

section \<open>bridge.py: one pass of the polling loop\<close>

text \<open>
  \<^verbatim>\<open>if bk: updates.append(bk)\<close>: a connector's dictionary has seven keys, so it is
  true whenever it is not \<^verbatim>\<open>None\<close>.
\<close>

definition append_if :: "market_data list \<Rightarrow> market_data option \<Rightarrow> market_data list" where
  "append_if updates r = (case r of None \<Rightarrow> updates | Some u \<Rightarrow> updates @ [u])"

text \<open>
  The body of \<^verbatim>\<open>while True\<close> up to the insert, given what the four requests gave.
  The result is the list \<open>updates\<close> and the batches handed to
  \<^verbatim>\<open>insert(...).execute()\<close>. Whatever the insert raises is caught and printed, so its
  outcome changes neither.
\<close>

definition main_tick ::
  "(pystr \<Rightarrow> real option) \<Rightarrow> error + json \<Rightarrow> error + json \<Rightarrow> error + json \<Rightarrow> error + json
     \<Rightarrow> error + market_data list \<times> market_data list list" where
  "main_tick lit r_bitkub r_binance r_maxbit r_fx =
     (case fetch_bitkub lit r_bitkub of
        Inl x \<Rightarrow> Inl x
      | Inr bk \<Rightarrow>
          (case fetch_binance_th lit r_binance of
             Inl x \<Rightarrow> Inl x
           | Inr bn \<Rightarrow>
               (case fetch_maxbit lit r_maxbit of
                  Inl x \<Rightarrow> Inl x
                | Inr mb \<Rightarrow>
                    (case fetch_fx r_fx of
                       Inl x \<Rightarrow> Inl x
                     | Inr fx \<Rightarrow>
                         (let updates = append_if (append_if (append_if (append_if [] bk) bn) mb) fx
                          in Inr (updates, if updates \<noteq> [] then [updates] else []))))))"

definition INTERVAL_SECONDS :: real where
  "INTERVAL_SECONDS = 1"

text \<open>
  \<^verbatim>\<open>elapsed = time.time() - start_time; sleep_time = max(0, INTERVAL_SECONDS - elapsed)\<close>,
  from the clock's reading at the start of the pass and its reading after the insert.
  The readings are doubles of the size of the epoch time, and their difference as
  doubles is not their exact difference: \<open>fsub\<close> is that subtraction, and \<open>elapsed\<close> is
  whatever it gives.
\<close>

definition sleep_time :: "(real \<Rightarrow> real \<Rightarrow> real) \<Rightarrow> real \<Rightarrow> real \<Rightarrow> real" where
  "sleep_time fsub start_time now =
     (let elapsed = fsub now start_time in max 0 (INTERVAL_SECONDS - elapsed))"

section \<open>telegram\_bot.py\<close>

text \<open>
  The word between a label and its number, and the pin before a symbol's heading, as the
  code points the file holds.
\<close>

definition kue :: pystr where
  "kue = [0xE0, 0xB8, 0x201E, 0xE0, 0xB8, 0xB7, 0xE0, 0xB8, 0xAD]"

definition pin :: pystr where
  "pin = [0xF0, 0x178, 0x201C, 0x152]"

text \<open>
  The dictionary \<open>patterns\<close> in the order it is written, which is the order
  \<^verbatim>\<open>patterns.items()\<close> gives. Each pattern is a literal text followed by the group
  \<^verbatim>\<open>([0-9.]+)\<close>; the entry holds the literal text.
\<close>

definition patterns :: "(string \<times> pystr \<times> pystr) list" where
  "patterns =
     [(''USDT'', str ''USDT>THB (Bid) '' @ kue @ str '' '', str ''THB>USDT (Ask) '' @ kue @ str '' ''),
      (''USDC'', str ''USDC>THB (Bid) '' @ kue @ str '' '', str ''THB>USDC (Ask) '' @ kue @ str '' '')]"

definition is_digit :: "nat \<Rightarrow> bool" where
  "is_digit c = (48 \<le> c \<and> c \<le> 57)"

text \<open>The class \<^verbatim>\<open>[0-9.]\<close>.\<close>

definition num_char :: "nat \<Rightarrow> bool" where
  "num_char c = (is_digit c \<or> c = 46)"

text \<open>
  The pattern matched where \<open>s\<close> starts: the literal text, then the longest run of
  \<^verbatim>\<open>[0-9.]\<close>, which must not be empty. The answer is the group.
\<close>

definition match_at :: "pystr \<Rightarrow> pystr \<Rightarrow> pystr option" where
  "match_at marker s =
     (case strip_prefix marker s of
        None \<Rightarrow> None
      | Some rest \<Rightarrow> (let g = takeWhile num_char rest in if g = [] then None else Some g))"

text \<open>\<^verbatim>\<open>re.search(pattern, text)\<close>: the match at the leftmost place that has one.\<close>

fun re_search :: "pystr \<Rightarrow> pystr \<Rightarrow> pystr option" where
  "re_search marker [] = match_at marker []"
| "re_search marker (c # cs) =
     (case match_at marker (c # cs) of
        Some g \<Rightarrow> Some g
      | None \<Rightarrow> re_search marker cs)"

definition digits_val :: "pystr \<Rightarrow> real" where
  "digits_val ds = foldl (\<lambda>a c. 10 * a + real (c - 48)) 0 ds"

text \<open>
  How \<^verbatim>\<open>float\<close> reads a string of digits and dots, the only strings the group can
  hold: digits, at most one dot, and a digit on one side of it at least.
\<close>

definition decimal_literal :: "pystr \<Rightarrow> real option" where
  "decimal_literal s =
     (let ip = takeWhile is_digit s in
      case dropWhile is_digit s of
        [] \<Rightarrow> if ip = [] then None else Some (digits_val ip)
      | c # fp \<Rightarrow>
          if c = 46 \<and> list_all is_digit fp \<and> \<not> (ip = [] \<and> fp = [])
          then Some (digits_val ip + digits_val fp / 10 ^ length fp)
          else None)"

text \<open>
  The loop of \<^verbatim>\<open>parse_prices\<close> over the items still to visit, with \<open>results\<close> so far.
  A \<^verbatim>\<open>float\<close> that raises ends the function: there is no \<^verbatim>\<open>try\<close> around it.
\<close>

fun parse_loop ::
  "(string \<times> pystr \<times> pystr) list \<Rightarrow> pystr \<Rightarrow> market_data list \<Rightarrow> error + market_data list" where
  "parse_loop [] txt results = Inr results"
| "parse_loop ((sy, p_bid, p_ask) # ps) txt results =
     (case re_search p_bid txt of
        None \<Rightarrow> parse_loop ps txt results
      | Some bid_match \<Rightarrow>
          (case re_search p_ask txt of
             None \<Rightarrow> parse_loop ps txt results
           | Some ask_match \<Rightarrow>
               (case py_float decimal_literal (JStr bid_match) of
                  Inl x \<Rightarrow> Inl x
                | Inr b \<Rightarrow>
                    (case py_float decimal_literal (JStr ask_match) of
                       Inl x \<Rightarrow> Inl x
                     | Inr a \<Rightarrow>
                         parse_loop ps txt
                           (results @
                            [\<lparr>source = ''bitazza'', symbol = sy,
                              price = JNum ((b + a) / 2),
                              bid = Some b, ask = Some a,
                              order_book = None,
                              raw_data = JObj [(str ''full_text'', JStr txt)]\<rparr>])))))"

definition parse_prices :: "pystr \<Rightarrow> error + market_data list" where
  "parse_prices txt = parse_loop patterns txt []"

text \<open>
  What the handler reads of an update: the text of the message, if it has one, and the
  chat it came from.
\<close>

record message =
  msg_text :: "pystr option"
  chat_id :: int

text \<open>
  \<^verbatim>\<open>handle_message\<close>, given \<open>GROUP_ID\<close> (\<open>None\<close> when the variable is unset or
  empty) and the update's message, if any. The result is the batches handed to
  \<^verbatim>\<open>insert(...).execute()\<close>; the \<^verbatim>\<open>try\<close> is around the insert only, so what
  \<^verbatim>\<open>parse_prices\<close> raises leaves the handler.
\<close>

definition handle_message :: "int option \<Rightarrow> message option \<Rightarrow> error + market_data list list" where
  "handle_message group_id update =
     (case update of
        None \<Rightarrow> Inr []
      | Some m \<Rightarrow>
          (case msg_text m of
             None \<Rightarrow> Inr []
           | Some txt \<Rightarrow>
               if txt = [] then Inr []
               else if (case group_id of None \<Rightarrow> False | Some g \<Rightarrow> g \<noteq> 0 \<and> chat_id m \<noteq> g)
               then Inr []
               else if contains (pin @ str ''USDT'') txt \<or> contains (pin @ str ''USDC'') txt
               then
                 (case parse_prices txt of
                    Inl x \<Rightarrow> Inl x
                  | Inr updates \<Rightarrow> Inr (if updates \<noteq> [] then [updates] else []))
               else Inr []))"

section \<open>Sample inputs\<close>

text \<open>A book whose best bid is 0: \<^verbatim>\<open>{"bids": [[0, 1]], "asks": [[5, 1]]}\<close>.\<close>

definition zero_bid_doc :: json where
  "zero_bid_doc =
     JObj [(str ''bids'', JArr [JArr [JNum 0, JNum 1]]),
           (str ''asks'', JArr [JArr [JNum 5, JNum 1]])]"

text \<open>A book with no asks: \<^verbatim>\<open>{"bids": [["31.10", 100]], "asks": []}\<close>.\<close>

definition one_sided_doc :: json where
  "one_sided_doc =
     JObj [(str ''bids'', JArr [JArr [JStr (str ''31.10''), JNum 100]]),
           (str ''asks'', JArr [])]"

text \<open>
  A book whose bid price is an integer too large for a double:
  \<^verbatim>\<open>{"bids": [[10 ** 400, 1]], "asks": []}\<close>, the number written out in the body.
\<close>

definition huge_bid_doc :: json where
  "huge_bid_doc =
     JObj [(str ''bids'', JArr [JArr [JNum (10 ^ 400), JNum 1]]),
           (str ''asks'', JArr [])]"

text \<open>Six levels on each side.\<close>

definition six_bids :: "json list" where
  "six_bids =
     [JArr [JNum 31.15, JNum 10], JArr [JNum 31.14, JNum 20], JArr [JNum 31.13, JNum 30],
      JArr [JNum 31.12, JNum 40], JArr [JNum 31.11, JNum 50], JArr [JNum 31.10, JNum 60]]"

definition six_asks :: "json list" where
  "six_asks =
     [JArr [JNum 31.25, JNum 11], JArr [JNum 31.26, JNum 21], JArr [JNum 31.27, JNum 31],
      JArr [JNum 31.28, JNum 41], JArr [JNum 31.29, JNum 51], JArr [JNum 31.30, JNum 61]]"

definition six_level_doc :: json where
  "six_level_doc = JObj [(str ''bids'', JArr six_bids), (str ''asks'', JArr six_asks)]"

text \<open>
  Answers of the OTC desk:
  \<^verbatim>\<open>{"responseCode": "000", "result": {"bid": 31.15, "ask": 31.25}}\<close> and the same with
  the code \<^verbatim>\<open>"001"\<close>.
\<close>

definition otc_result :: json where
  "otc_result = JObj [(str ''bid'', JNum 31.15), (str ''ask'', JNum 31.25)]"

definition accepted_doc :: json where
  "accepted_doc = JObj [(str ''responseCode'', JStr (str ''000'')), (str ''result'', otc_result)]"

definition rejected_kvs :: "(pystr \<times> json) list" where
  "rejected_kvs = [(str ''responseCode'', JStr (str ''001'')), (str ''result'', otc_result)]"

text \<open>A rate table: \<^verbatim>\<open>{"rates": {"THB": 35.5}}\<close>.\<close>

definition fx_doc :: json where
  "fx_doc = JObj [(str ''rates'', JObj [(str ''THB'', JNum 35.5)])]"

text \<open>A message that quotes both symbols.\<close>

definition both_text :: pystr where
  "both_text =
     pin @ str ''USDT USDT>THB (Bid) '' @ kue @ str '' 31.188 THB>USDT (Ask) '' @ kue @ str '' 31.245 ''
     @ pin @ str ''USDC USDC>THB (Bid) '' @ kue @ str '' 31.1 THB>USDC (Ask) '' @ kue @ str '' 31.3''"

text \<open>A message that quotes one symbol and ends its first sentence with a full stop.\<close>

definition full_stop_text :: pystr where
  "full_stop_text =
     pin @ str ''USDT USDT>THB (Bid) '' @ kue @ str '' 31.188. THB>USDT (Ask) '' @ kue @ str '' 31.245''"

text \<open>A message with the two markers of one symbol, the second number mistyped.\<close>

definition mistyped_text :: pystr where
  "mistyped_text =
     str ''USDT>THB (Bid) '' @ kue @ str '' 31.188 THB>USDT (Ask) '' @ kue @ str '' 31..245''"

section \<open>Unfolding the model on a concrete input\<close>

lemmas run =
  float_overflow_def str_def kue_def pin_def patterns_def parse_prices_def match_at_def num_char_def is_digit_def
  decimal_literal_def digits_val_def fetch_bitkub_def fetch_binance_th_def fetch_maxbit_def
  fetch_fx_def except_none_def has_bids_asks_def depth_record_def levels_def level_def
  unpack2_def float_field_def handle_message_def

section \<open>What a connector that returns a record has done\<close>

lemma except_none_Inr: "\<exists>r. except_none body = Inr r"
  by (cases body) (simp_all add: except_none_def)

lemma except_none_Some: "except_none body = Inr (Some r) \<longleftrightarrow> body = Inr (Some r)"
  by (cases body) (simp_all add: except_none_def)

lemma level_list_map:
  "level_list lit es = Inr ls \<Longrightarrow> map (level lit) es = map Inr ls"
  by (induction es arbitrary: ls) (auto split: sum.splits)

lemma level_list_length:
  "level_list lit es = Inr ls \<Longrightarrow> length ls = length es"
  by (induction es arbitrary: ls) (auto split: sum.splits)

lemma levels_JArr: "levels lit (JArr xs) = level_list lit (take 5 xs)"
  by (simp add: levels_def)

lemma depth_record_Some:
  assumes "depth_record venue pair lit data = Inr (Some r)"
  shows "\<exists>bside aside bl al.
           py_getitem data (str ''bids'') = Inr bside \<and> levels lit bside = Inr bl \<and>
           py_getitem data (str ''asks'') = Inr aside \<and> levels lit aside = Inr al \<and>
           r = \<lparr>source = venue, symbol = pair, price = mid_price (best bl) (best al),
                 bid = best bl, ask = best al,
                 order_book = Some \<lparr>bids = bl, asks = al\<rparr>, raw_data = data\<rparr>"
  using assms by (auto simp: depth_record_def split: sum.splits)

lemma fetch_bitkub_Some:
  assumes "fetch_bitkub lit response = Inr (Some r)"
  shows "\<exists>data. response = Inr data \<and> depth_record ''bitkub'' ''THB_USDT'' lit data = Inr (Some r)"
  using assms
  by (auto simp: fetch_bitkub_def except_none_Some split: sum.splits if_splits bool.splits)

lemma fetch_binance_th_Some:
  assumes "fetch_binance_th lit response = Inr (Some r)"
  shows "\<exists>data. response = Inr data \<and> depth_record ''binance_th'' ''USDTTHB'' lit data = Inr (Some r)"
  using assms
  by (auto simp: fetch_binance_th_def except_none_Some split: sum.splits if_splits bool.splits)

lemma fetch_maxbit_Some:
  assumes "fetch_maxbit lit response = Inr (Some r)"
  shows "\<exists>data res b a.
           response = Inr data \<and>
           py_get data (str ''responseCode'') = Inr (JStr (str ''000'')) \<and>
           py_in (str ''result'') data = Inr True \<and>
           py_getitem data (str ''result'') = Inr res \<and>
           float_field lit res (str ''bid'') = Inr b \<and>
           float_field lit res (str ''ask'') = Inr a \<and>
           r = \<lparr>source = ''maxbit'', symbol = ''USDT'', price = JNum ((b + a) / 2),
                 bid = Some b, ask = Some a, order_book = None, raw_data = data\<rparr>"
  using assms
  by (auto simp: fetch_maxbit_def except_none_Some split: sum.splits if_splits bool.splits)

lemma fetch_fx_Some:
  assumes "fetch_fx response = Inr (Some r)"
  shows "\<exists>data rates rate.
           response = Inr data \<and>
           py_getitem data (str ''rates'') = Inr rates \<and>
           py_getitem rates (str ''THB'') = Inr rate \<and>
           r = \<lparr>source = ''fx'', symbol = ''USD_THB'', price = rate,
                 bid = None, ask = None, order_book = None, raw_data = data\<rparr>"
  using assms
  by (auto simp: fetch_fx_def except_none_Some split: sum.splits if_splits bool.splits)

lemma fetch_depth_built:
  assumes "py_getitem data (str ''bids'') = Inr bside" and "levels lit bside = Inr bl"
    and "py_getitem data (str ''asks'') = Inr aside" and "levels lit aside = Inr al"
  shows "fetch_bitkub lit (Inr data) =
           Inr (Some \<lparr>source = ''bitkub'', symbol = ''THB_USDT'',
                      price = mid_price (best bl) (best al), bid = best bl, ask = best al,
                      order_book = Some \<lparr>bids = bl, asks = al\<rparr>, raw_data = data\<rparr>)"
    and "fetch_binance_th lit (Inr data) =
           Inr (Some \<lparr>source = ''binance_th'', symbol = ''USDTTHB'',
                      price = mid_price (best bl) (best al), bid = best bl, ask = best al,
                      order_book = Some \<lparr>bids = bl, asks = al\<rparr>, raw_data = data\<rparr>)"
proof -
  from assms(1) obtain kvs where d: "data = JObj kvs"
    by (cases data) simp_all
  from assms(1,3) d have "kvs \<noteq> []" "map_of kvs (str ''bids'') \<noteq> None"
    "map_of kvs (str ''asks'') \<noteq> None"
    by (auto split: option.splits)
  then have h: "truthy data" "has_bids_asks data = Inr True"
    using d by (simp_all add: has_bids_asks_def map_of_eq_None_iff)
  have r: "depth_record venue pair lit data =
          Inr (Some \<lparr>source = venue, symbol = pair,
                     price = mid_price (best bl) (best al), bid = best bl, ask = best al,
                     order_book = Some \<lparr>bids = bl, asks = al\<rparr>, raw_data = data\<rparr>)"
    for venue pair
    using assms by (simp add: depth_record_def)
  from h r show "fetch_bitkub lit (Inr data) =
           Inr (Some \<lparr>source = ''bitkub'', symbol = ''THB_USDT'',
                      price = mid_price (best bl) (best al), bid = best bl, ask = best al,
                      order_book = Some \<lparr>bids = bl, asks = al\<rparr>, raw_data = data\<rparr>)"
    by (simp add: fetch_bitkub_def except_none_def)
  from h r show "fetch_binance_th lit (Inr data) =
           Inr (Some \<lparr>source = ''binance_th'', symbol = ''USDTTHB'',
                      price = mid_price (best bl) (best al), bid = best bl, ask = best al,
                      order_book = Some \<lparr>bids = bl, asks = al\<rparr>, raw_data = data\<rparr>)"
    by (simp add: fetch_binance_th_def except_none_def)
qed

text \<open>
  A price too large for a double: \<^verbatim>\<open>float\<close> raises, the connector catches it and
  returns \<^verbatim>\<open>None\<close>, whatever the reading of strings.
\<close>

lemma huge_bid_no_record:
  "fetch_bitkub lit (Inr huge_bid_doc) = Inr None"
  "fetch_binance_th lit (Inr huge_bid_doc) = Inr None"
  by (simp_all add: huge_bid_doc_def str_def float_overflow_def fetch_bitkub_def
        fetch_binance_th_def except_none_def has_bids_asks_def depth_record_def levels_def
        level_def unpack2_def)

lemma best_None: "best ls = None \<longleftrightarrow> ls = []"
  by (cases ls) simp_all

lemma fetch_total:
  "\<exists>r. fetch_bitkub lit a = Inr r" "\<exists>r. fetch_binance_th lit a = Inr r"
  "\<exists>r. fetch_maxbit lit a = Inr r" "\<exists>r. fetch_fx a = Inr r"
  by (simp_all add: fetch_bitkub_def fetch_binance_th_def fetch_maxbit_def fetch_fx_def
        except_none_Inr)

lemma fetch_source:
  "fetch_bitkub lit a = Inr (Some r) \<Longrightarrow> source r = ''bitkub''"
  "fetch_binance_th lit a = Inr (Some r) \<Longrightarrow> source r = ''binance_th''"
  "fetch_maxbit lit a = Inr (Some r) \<Longrightarrow> source r = ''maxbit''"
  "fetch_fx a = Inr (Some r) \<Longrightarrow> source r = ''fx''"
  by (auto dest!: fetch_bitkub_Some fetch_binance_th_Some fetch_maxbit_Some fetch_fx_Some
        depth_record_Some)

section \<open>What the extractor returns\<close>

lemma parse_prices_length: "parse_prices txt = Inr rs \<Longrightarrow> length rs \<le> 2"
  by (auto simp: parse_prices_def patterns_def split: option.splits sum.splits)

lemma parse_prices_record:
  assumes "parse_prices txt = Inr rs" "r \<in> set rs"
  shows "\<exists>b a. r = \<lparr>source = ''bitazza'', symbol = symbol r, price = JNum ((b + a) / 2),
                 bid = Some b, ask = Some a, order_book = None,
                 raw_data = JObj [(str ''full_text'', JStr txt)]\<rparr>"
  using assms
  by (auto simp: parse_prices_def patterns_def split: option.splits sum.splits)

lemma parse_prices_symbols:
  assumes "parse_prices txt = Inr rs"
  shows "map symbol rs \<in> {[], [''USDT''], [''USDC''], [''USDT'', ''USDC'']}"
  using assms
  by (auto simp: parse_prices_def patterns_def split: option.splits sum.splits)

lemma parse_prices_symbol_iff:
  assumes "parse_prices txt = Inr rs" "(sy, p_bid, p_ask) \<in> set patterns"
  shows "sy \<in> symbol ` set rs \<longleftrightarrow> re_search p_bid txt \<noteq> None \<and> re_search p_ask txt \<noteq> None"
  using assms
  by (auto simp: parse_prices_def patterns_def split: option.splits sum.splits)

lemma parse_prices_error: "parse_prices txt = Inl e \<Longrightarrow> e = ValueError"
  by (auto simp: parse_prices_def patterns_def split: option.splits sum.splits json.splits)

lemma depth_price:
  assumes "fetch_bitkub lit response = Inr (Some r) \<or> fetch_binance_th lit response = Inr (Some r)"
  shows "price r = mid_price (bid r) (ask r)"
  using assms
  by (auto dest!: fetch_bitkub_Some fetch_binance_th_Some depth_record_Some)

lemma depth_midpoint_nonzero:
  assumes "fetch_bitkub lit response = Inr (Some r) \<or> fetch_binance_th lit response = Inr (Some r)"
    and "bid r = Some b" and "ask r = Some a" and "b \<noteq> 0" and "a \<noteq> 0"
  shows "price r = JNum ((b + a) / 2)"
  using depth_price [OF assms(1)] assms(2-) by simp

lemma maxbit_midpoint:
  assumes "fetch_maxbit lit response = Inr (Some r)"
  shows "\<exists>b a. bid r = Some b \<and> ask r = Some a \<and> price r = JNum ((b + a) / 2)"
  using assms by (auto dest!: fetch_maxbit_Some)

lemma parse_prices_midpoint:
  assumes "parse_prices txt = Inr rs" and "r \<in> set rs"
  shows "\<exists>b a. bid r = Some b \<and> ask r = Some a \<and> price r = JNum ((b + a) / 2)"
proof -
  from parse_prices_record [OF assms] obtain b a where
    "r = \<lparr>source = ''bitazza'', symbol = symbol r, price = JNum ((b + a) / 2),
          bid = Some b, ask = Some a, order_book = None,
          raw_data = JObj [(str ''full_text'', JStr txt)]\<rparr>" by blast
  then have "bid r = Some b \<and> ask r = Some a \<and> price r = JNum ((b + a) / 2)"
    by (metis market_data.select_convs(3,4,5))
  then show ?thesis by blast
qed

section \<open>The claims\<close>

text \<open>
  C5. When \<^verbatim>\<open>data.get('responseCode')\<close> is not the string \<^verbatim>\<open>'000'\<close>, or
  \<^verbatim>\<open>'result'\<close> is not in the answer, \<^verbatim>\<open>fetch_maxbit\<close> returns \<^verbatim>\<open>None\<close>:
  it builds no record and raises nothing. An answer that is no dictionary has no
  \<^verbatim>\<open>get\<close> and is among these.
\<close>

theorem C5_otc_rejection:
  assumes "py_get data (str ''responseCode'') \<noteq> Inr (JStr (str ''000'')) \<or>
           py_in (str ''result'') data \<noteq> Inr True"
  shows "fetch_maxbit lit (Inr data) = Inr None"
  using assms
  by (auto simp: fetch_maxbit_def except_none_def split: sum.splits bool.splits)

text \<open>C5 on the answer whose code is \<^verbatim>\<open>"001"\<close>.\<close>

theorem C5_witness:
  "py_get (JObj rejected_kvs) (str ''responseCode'') = Inr (JStr (str ''001'')) \<and>
   fetch_maxbit decimal_literal (Inr (JObj rejected_kvs)) = Inr None"
proof -
  have c: "py_get (JObj rejected_kvs) (str ''responseCode'') = Inr (JStr (str ''001''))"
    by (simp add: rejected_kvs_def str_def)
  then have "py_get (JObj rejected_kvs) (str ''responseCode'') \<noteq> Inr (JStr (str ''000''))"
    by (simp add: str_def)
  then have "fetch_maxbit decimal_literal (Inr (JObj rejected_kvs)) = Inr None"
    using C5_otc_rejection [of "JObj rejected_kvs" decimal_literal] by blast
  with c show ?thesis by simp
qed

text \<open>
  C8. When \<^verbatim>\<open>data['asks']\<close> is the empty list and \<^verbatim>\<open>data['bids']\<close> is a list that
  is not empty and whose first five entries are levels (each unpacks into two values
  that \<^verbatim>\<open>float\<close> accepts), both depth connectors return a record: its price is
  \<^verbatim>\<open>None\<close>, its ask is \<^verbatim>\<open>None\<close>, its bid is the first level's price, and the asks
  of its book are the empty list. Nothing is raised. An entry that \<^verbatim>\<open>float\<close> rejects,
  such as a price beyond the doubles, is no level: there the connector returns
  \<^verbatim>\<open>None\<close> (\<open>huge_bid_no_record\<close>).
\<close>

theorem C8_empty_asks:
  assumes "py_getitem data (str ''bids'') = Inr (JArr bs)" and "bs \<noteq> []"
    and "level_list lit (take 5 bs) = Inr bl"
    and "py_getitem data (str ''asks'') = Inr (JArr [])"
  shows "bl \<noteq> [] \<and>
         fetch_bitkub lit (Inr data) =
           Inr (Some \<lparr>source = ''bitkub'', symbol = ''THB_USDT'', price = JNull,
                      bid = Some (fst (hd bl)), ask = None,
                      order_book = Some \<lparr>bids = bl, asks = []\<rparr>, raw_data = data\<rparr>) \<and>
         fetch_binance_th lit (Inr data) =
           Inr (Some \<lparr>source = ''binance_th'', symbol = ''USDTTHB'', price = JNull,
                      bid = Some (fst (hd bl)), ask = None,
                      order_book = Some \<lparr>bids = bl, asks = []\<rparr>, raw_data = data\<rparr>)"
proof -
  from assms(1) obtain kvs where d: "data = JObj kvs"
    by (cases data) simp_all
  from assms(1,4) d have k: "kvs \<noteq> []" "map_of kvs (str ''bids'') \<noteq> None" "map_of kvs (str ''asks'') \<noteq> None"
    by (auto split: option.splits)
  then have h: "truthy data" "has_bids_asks data = Inr True"
    using d by (simp_all add: has_bids_asks_def map_of_eq_None_iff)
  from assms(2,3) have "length bl \<noteq> 0"
    by (simp add: level_list_length)
  then obtain l ls where bl: "bl = l # ls" by (cases bl) simp_all
  from assms(3) have lb: "levels lit (JArr bs) = Inr bl"
    by (simp add: levels_JArr)
  have la: "levels lit (JArr []) = Inr []"
    by (simp add: levels_JArr)
  have "depth_record venue pair lit data =
          Inr (Some \<lparr>source = venue, symbol = pair, price = JNull,
                     bid = Some (fst (hd bl)), ask = None,
                     order_book = Some \<lparr>bids = bl, asks = []\<rparr>, raw_data = data\<rparr>)"
    for venue pair
    using assms(1,4) lb la bl by (simp add: depth_record_def)
  with h bl show ?thesis
    by (simp add: fetch_bitkub_def fetch_binance_th_def except_none_def)
qed

text \<open>C8 on the book \<^verbatim>\<open>{"bids": [["31.10", 100]], "asks": []}\<close>.\<close>

theorem C8_witness:
  "fetch_bitkub decimal_literal (Inr one_sided_doc) =
     Inr (Some \<lparr>source = ''bitkub'', symbol = ''THB_USDT'', price = JNull,
                bid = Some 31.1, ask = None,
                order_book = Some \<lparr>bids = [(31.1, 100)], asks = []\<rparr>,
                raw_data = one_sided_doc\<rparr>)"
proof -
  have "py_getitem one_sided_doc (str ''bids'') = Inr (JArr [JArr [JStr (str ''31.10''), JNum 100]])"
    and "[JArr [JStr (str ''31.10''), JNum 100]] \<noteq> []"
    and "level_list decimal_literal (take 5 [JArr [JStr (str ''31.10''), JNum 100]]) = Inr [(31.1, 100)]"
    and "py_getitem one_sided_doc (str ''asks'') = Inr (JArr [])"
    by (simp_all add: one_sided_doc_def run)
  from C8_empty_asks [OF this] show ?thesis by simp
qed

text \<open>
  C4. Let \<^verbatim>\<open>data['bids']\<close> and \<^verbatim>\<open>data['asks']\<close> be lists of more than five entries.
  When the first five entries of each are levels, both depth connectors return a record,
  and its book has exactly five levels on each side: those first five entries, in order,
  each read as a level. And whenever a depth connector returns a record from such an
  answer, its book is that one.
\<close>

theorem C4_depth_truncation:
  assumes "py_getitem data (str ''bids'') = Inr (JArr bs)" and "5 < length bs"
    and "py_getitem data (str ''asks'') = Inr (JArr as)" and "5 < length as"
  shows "(level_list lit (take 5 bs) = Inr bl \<and> level_list lit (take 5 as) = Inr al \<longrightarrow>
            length bl = 5 \<and> map Inr bl = map (level lit) (take 5 bs) \<and>
            length al = 5 \<and> map Inr al = map (level lit) (take 5 as) \<and>
            fetch_bitkub lit (Inr data) =
              Inr (Some \<lparr>source = ''bitkub'', symbol = ''THB_USDT'',
                         price = mid_price (best bl) (best al), bid = best bl, ask = best al,
                         order_book = Some \<lparr>bids = bl, asks = al\<rparr>, raw_data = data\<rparr>) \<and>
            fetch_binance_th lit (Inr data) =
              Inr (Some \<lparr>source = ''binance_th'', symbol = ''USDTTHB'',
                         price = mid_price (best bl) (best al), bid = best bl, ask = best al,
                         order_book = Some \<lparr>bids = bl, asks = al\<rparr>, raw_data = data\<rparr>)) \<and>
         (fetch_bitkub lit (Inr data) = Inr (Some r) \<or>
          fetch_binance_th lit (Inr data) = Inr (Some r) \<longrightarrow>
            (\<exists>ob. order_book r = Some ob \<and>
               length (bids ob) = 5 \<and> map Inr (bids ob) = map (level lit) (take 5 bs) \<and>
               length (asks ob) = 5 \<and> map Inr (asks ob) = map (level lit) (take 5 as)))"
proof (intro conjI impI)
  assume c: "level_list lit (take 5 bs) = Inr bl \<and> level_list lit (take 5 as) = Inr al"
  then have b: "level_list lit (take 5 bs) = Inr bl"
    and a: "level_list lit (take 5 as) = Inr al" by simp_all
  from level_list_length [OF b] assms(2) show "length bl = 5" by simp
  from level_list_map [OF b] show "map Inr bl = map (level lit) (take 5 bs)" by simp
  from level_list_length [OF a] assms(4) show "length al = 5" by simp
  from level_list_map [OF a] show "map Inr al = map (level lit) (take 5 as)" by simp
  from c have l: "levels lit (JArr bs) = Inr bl" "levels lit (JArr as) = Inr al"
    by (simp_all add: levels_JArr)
  from fetch_depth_built(1) [OF assms(1) l(1) assms(3) l(2)]
  show "fetch_bitkub lit (Inr data) =
              Inr (Some \<lparr>source = ''bitkub'', symbol = ''THB_USDT'',
                         price = mid_price (best bl) (best al), bid = best bl, ask = best al,
                         order_book = Some \<lparr>bids = bl, asks = al\<rparr>, raw_data = data\<rparr>)" .
  from fetch_depth_built(2) [OF assms(1) l(1) assms(3) l(2)]
  show "fetch_binance_th lit (Inr data) =
              Inr (Some \<lparr>source = ''binance_th'', symbol = ''USDTTHB'',
                         price = mid_price (best bl) (best al), bid = best bl, ask = best al,
                         order_book = Some \<lparr>bids = bl, asks = al\<rparr>, raw_data = data\<rparr>)" .
next
  assume "fetch_bitkub lit (Inr data) = Inr (Some r) \<or>
          fetch_binance_th lit (Inr data) = Inr (Some r)"
  then obtain venue pair where
    "depth_record venue pair lit data = Inr (Some r)"
    by (auto dest: fetch_bitkub_Some fetch_binance_th_Some)
  then obtain bl' al' where
    b: "level_list lit (take 5 bs) = Inr bl'" and a: "level_list lit (take 5 as) = Inr al'"
    and r: "order_book r = Some \<lparr>bids = bl', asks = al'\<rparr>"
    using assms(1,3) by (auto dest!: depth_record_Some simp: levels_JArr)
  from b assms(2) have "length bl' = 5" "map Inr bl' = map (level lit) (take 5 bs)"
    by (simp_all add: level_list_length level_list_map)
  moreover from a assms(4) have "length al' = 5" "map Inr al' = map (level lit) (take 5 as)"
    by (simp_all add: level_list_length level_list_map)
  ultimately show "\<exists>ob. order_book r = Some ob \<and>
               length (bids ob) = 5 \<and> map Inr (bids ob) = map (level lit) (take 5 bs) \<and>
               length (asks ob) = 5 \<and> map Inr (asks ob) = map (level lit) (take 5 as)"
    using r by simp
qed

text \<open>
  C4 on a book of six levels a side: both connectors return the record whose book holds
  the first five of each side, the sixth dropped.
\<close>

theorem C4_witness:
  "length six_bids = 6 \<and> length six_asks = 6 \<and>
   fetch_bitkub decimal_literal (Inr six_level_doc) =
     Inr (Some \<lparr>source = ''bitkub'', symbol = ''THB_USDT'', price = JNum 31.2,
                bid = Some 31.15, ask = Some 31.25,
                order_book =
                  Some \<lparr>bids = [(31.15, 10), (31.14, 20), (31.13, 30), (31.12, 40), (31.11, 50)],
                        asks = [(31.25, 11), (31.26, 21), (31.27, 31), (31.28, 41), (31.29, 51)]\<rparr>,
                raw_data = six_level_doc\<rparr>) \<and>
   fetch_binance_th decimal_literal (Inr six_level_doc) =
     Inr (Some \<lparr>source = ''binance_th'', symbol = ''USDTTHB'', price = JNum 31.2,
                bid = Some 31.15, ask = Some 31.25,
                order_book =
                  Some \<lparr>bids = [(31.15, 10), (31.14, 20), (31.13, 30), (31.12, 40), (31.11, 50)],
                        asks = [(31.25, 11), (31.26, 21), (31.27, 31), (31.28, 41), (31.29, 51)]\<rparr>,
                raw_data = six_level_doc\<rparr>)"
proof -
  have g: "py_getitem six_level_doc (str ''bids'') = Inr (JArr six_bids)"
    "py_getitem six_level_doc (str ''asks'') = Inr (JArr six_asks)"
    by (simp_all add: six_level_doc_def str_def)
  have n: "length six_bids = 6" "length six_asks = 6"
    by (simp_all add: six_bids_def six_asks_def)
  then have m: "5 < length six_bids" "5 < length six_asks" by simp_all
  have l: "level_list decimal_literal (take 5 six_bids) =
             Inr [(31.15, 10), (31.14, 20), (31.13, 30), (31.12, 40), (31.11, 50)]"
    "level_list decimal_literal (take 5 six_asks) =
             Inr [(31.25, 11), (31.26, 21), (31.27, 31), (31.28, 41), (31.29, 51)]"
    by (simp_all add: six_bids_def six_asks_def level_def unpack2_def float_overflow_def)
  from C4_depth_truncation [OF g(1) m(1) g(2) m(2), of decimal_literal
      "[(31.15, 10), (31.14, 20), (31.13, 30), (31.12, 40), (31.11, 50)]"
      "[(31.25, 11), (31.26, 21), (31.27, 31), (31.28, 41), (31.29, 51)]"] l n
  show ?thesis by simp
qed

text \<open>
  C7. The sleep is \<^verbatim>\<open>max(0, INTERVAL_SECONDS - elapsed)\<close> with an interval of 1, and is
  never negative; when the elapsed time that the code computed is 0.3 the sleep is 0.7,
  and when it is 1.4 the sleep is 0.
\<close>

theorem C7_sleep_time:
  "sleep_time fsub start_time now = max 0 (1 - fsub now start_time) \<and>
   0 \<le> sleep_time fsub start_time now \<and>
   (fsub now start_time = 0.3 \<longrightarrow> sleep_time fsub start_time now = 0.7) \<and>
   (fsub now start_time = 1.4 \<longrightarrow> sleep_time fsub start_time now = 0)"
  by (simp add: sleep_time_def INTERVAL_SECONDS_def)

text \<open>C7 on a pass from 0 to 0.3 and on a pass from 0 to 1.4, the subtraction exact.\<close>

theorem C7_witness:
  "(0.3 :: real) - 0 = 0.3 \<and> sleep_time (\<lambda>a b. a - b) 0 0.3 = 0.7 \<and>
   (1.4 :: real) - 0 = 1.4 \<and> sleep_time (\<lambda>a b. a - b) 0 1.4 = 0"
proof -
  have a: "(\<lambda>a b. a - b) (0.3 :: real) 0 = 0.3" and b: "(\<lambda>a b. a - b) (1.4 :: real) 0 = 1.4"
    by simp_all
  from C7_sleep_time [of "\<lambda>a b. a - b" 0 "0.3"] a
  have "sleep_time (\<lambda>a b. a - b) 0 0.3 = 0.7" by blast
  moreover from C7_sleep_time [of "\<lambda>a b. a - b" 0 "1.4"] b
  have "sleep_time (\<lambda>a b. a - b) 0 1.4 = 0" by blast
  ultimately show ?thesis by simp
qed

text \<open>
  C9. One pass of the loop raises nothing; its batch has at most four records, no two of
  the same source, each source one of the four connectors'; and the batch is handed to
  the insert once when it is not empty, and not at all when it is.
\<close>

theorem C9_batch:
  "\<exists>updates.
     main_tick lit r_bitkub r_binance r_maxbit r_fx =
       Inr (updates, if updates = [] then [] else [updates]) \<and>
     length updates \<le> 4 \<and>
     distinct (map source updates) \<and>
     set (map source updates) \<subseteq> {''bitkub'', ''binance_th'', ''maxbit'', ''fx''}"
proof -
  obtain bk where f1: "fetch_bitkub lit r_bitkub = Inr bk" using fetch_total(1) by blast
  obtain bn where f2: "fetch_binance_th lit r_binance = Inr bn" using fetch_total(2) by blast
  obtain mb where f3: "fetch_maxbit lit r_maxbit = Inr mb" using fetch_total(3) by blast
  obtain fx where f4: "fetch_fx r_fx = Inr fx" using fetch_total(4) by blast
  define updates where "updates = append_if (append_if (append_if (append_if [] bk) bn) mb) fx"
  have m: "main_tick lit r_bitkub r_binance r_maxbit r_fx =
       Inr (updates, if updates = [] then [] else [updates])"
    by (simp add: main_tick_def f1 f2 f3 f4 updates_def Let_def)
  have s1: "map source (append_if [] bk) = (case bk of None \<Rightarrow> [] | Some r \<Rightarrow> [''bitkub''])"
    using f1 by (cases bk) (simp_all add: append_if_def fetch_source(1))
  have s2: "map source (append_if us bn) = map source us @ (case bn of None \<Rightarrow> [] | Some r \<Rightarrow> [''binance_th''])" for us
    using f2 by (cases bn) (simp_all add: append_if_def fetch_source(2))
  have s3: "map source (append_if us mb) = map source us @ (case mb of None \<Rightarrow> [] | Some r \<Rightarrow> [''maxbit''])" for us
    using f3 by (cases mb) (simp_all add: append_if_def fetch_source(3))
  have s4: "map source (append_if us fx) = map source us @ (case fx of None \<Rightarrow> [] | Some r \<Rightarrow> [''fx''])" for us
    using f4 by (cases fx) (simp_all add: append_if_def fetch_source(4))
  have src: "map source updates =
      (case bk of None \<Rightarrow> [] | Some r \<Rightarrow> [''bitkub'']) @
      (case bn of None \<Rightarrow> [] | Some r \<Rightarrow> [''binance_th'']) @
      (case mb of None \<Rightarrow> [] | Some r \<Rightarrow> [''maxbit'']) @
      (case fx of None \<Rightarrow> [] | Some r \<Rightarrow> [''fx''])"
    by (simp add: updates_def s1 s2 s3 s4)
  have "length (map source updates) \<le> 4 \<and> distinct (map source updates) \<and>
     set (map source updates) \<subseteq> {''bitkub'', ''binance_th'', ''maxbit'', ''fx''}"
    unfolding src by (simp split: option.split)
  then have "length updates \<le> 4 \<and> distinct (map source updates) \<and>
     set (map source updates) \<subseteq> {''bitkub'', ''binance_th'', ''maxbit'', ''fx''}"
    by simp
  with m show ?thesis by blast
qed

text \<open>
  C10. Every record \<^verbatim>\<open>parse_prices\<close> returns has source \<^verbatim>\<open>'bitazza'\<close>, no order
  book, and the whole text under \<^verbatim>\<open>'full_text'\<close> in its raw data; when both symbols
  have a record, the list is the one of USDT followed by the one of USDC.
\<close>

theorem C10_extractor_records:
  assumes "parse_prices txt = Inr rs"
  shows "(\<forall>r \<in> set rs. source r = ''bitazza'' \<and> order_book r = None \<and>
            raw_data r = JObj [(str ''full_text'', JStr txt)]) \<and>
         (''USDT'' \<in> symbol ` set rs \<and> ''USDC'' \<in> symbol ` set rs \<longrightarrow>
            map symbol rs = [''USDT'', ''USDC''])"
proof -
  have "source r = ''bitazza'' \<and> order_book r = None \<and>
        raw_data r = JObj [(str ''full_text'', JStr txt)]" if "r \<in> set rs" for r
    using parse_prices_record [OF assms that] by (metis market_data.select_convs(1,6,7))
  moreover have "map symbol rs = [''USDT'', ''USDC'']"
    if "''USDT'' \<in> symbol ` set rs" "''USDC'' \<in> symbol ` set rs"
    using parse_prices_symbols [OF assms] that
    by (auto simp flip: set_map)
  ultimately show ?thesis by blast
qed

text \<open>C10 on a message that quotes both symbols.\<close>

theorem C10_witness:
  "\<exists>rs. parse_prices both_text = Inr rs \<and>
     (\<forall>r \<in> set rs. source r = ''bitazza'' \<and> order_book r = None \<and>
         raw_data r = JObj [(str ''full_text'', JStr both_text)]) \<and>
     map symbol rs = [''USDT'', ''USDC'']"
proof -
  obtain rs where p: "parse_prices both_text = Inr rs" and s: "map symbol rs = [''USDT'', ''USDC'']"
    by (simp add: both_text_def run)
  from s have "''USDT'' \<in> symbol ` set rs \<and> ''USDC'' \<in> symbol ` set rs"
    by (simp flip: set_map)
  with C10_extractor_records [OF p] p s show ?thesis
    by (intro exI [of _ rs]) simp
qed

text \<open>
  C1. The midpoint holds where it is computed without a test: in \<^verbatim>\<open>fetch_maxbit\<close>
  and \<^verbatim>\<open>parse_prices\<close> (\<open>maxbit_midpoint\<close>, \<open>parse_prices_midpoint\<close>), and in the
  depth connectors when neither side is 0 (\<open>depth_midpoint_nonzero\<close>). The depth
  connectors test \<^verbatim>\<open>best_bid and best_ask\<close>, and 0.0 is false: on the book
  \<^verbatim>\<open>{"bids": [[0, 1]], "asks": [[5, 1]]}\<close> the record of \<^verbatim>\<open>fetch_bitkub\<close> has bid 0
  and ask 5, both set, and price \<^verbatim>\<open>None\<close> where the midpoint is 2.5.
\<close>

theorem C1_zero_bid_price_absent:
  "fetch_bitkub decimal_literal (Inr zero_bid_doc) =
     Inr (Some \<lparr>source = ''bitkub'', symbol = ''THB_USDT'', price = JNull,
                bid = Some 0, ask = Some 5,
                order_book = Some \<lparr>bids = [(0, 1)], asks = [(5, 1)]\<rparr>,
                raw_data = zero_bid_doc\<rparr>)"
  by (simp add: zero_bid_doc_def run)

text \<open>
  C2. \<^verbatim>\<open>parse_prices\<close> returns at most two records when it returns
  (\<open>parse_prices_length\<close>), but it can raise: the group \<^verbatim>\<open>[0-9.]+\<close> takes the full
  stop that ends a sentence, \<^verbatim>\<open>float('31.188.')\<close> raises \<^verbatim>\<open>ValueError\<close>, and neither
  \<^verbatim>\<open>parse_prices\<close> nor \<^verbatim>\<open>handle_message\<close> catches it.
\<close>

theorem C2_full_stop_raises:
  "parse_prices full_stop_text = Inl ValueError \<and>
   handle_message None (Some \<lparr>msg_text = Some full_stop_text, chat_id = 1\<rparr>) = Inl ValueError"
  by (simp add: full_stop_text_def run)

text \<open>
  C6. When \<^verbatim>\<open>parse_prices\<close> returns, a symbol has a record exactly when both its
  patterns match (\<open>parse_prices_symbol_iff\<close>). It does not always return: in a message
  with both markers of USDT and the second number typed \<^verbatim>\<open>31..245\<close>, both patterns
  match and there is no record, but a \<^verbatim>\<open>ValueError\<close>.
\<close>

theorem C6_markers_found_no_record:
  "re_search (str ''USDT>THB (Bid) '' @ kue @ str '' '') mistyped_text = Some (str ''31.188'') \<and>
   re_search (str ''THB>USDT (Ask) '' @ kue @ str '' '') mistyped_text = Some (str ''31..245'') \<and>
   parse_prices mistyped_text = Inl ValueError"
  by (simp add: mistyped_text_def run)

text \<open>
  C3, as the code has it. A record of \<^verbatim>\<open>fetch_maxbit\<close> or of \<^verbatim>\<open>parse_prices\<close> has
  both bid and ask; a record of \<^verbatim>\<open>fetch_fx\<close> has neither; in a record of a depth
  connector the bid is absent exactly when the bids of its book are empty and the ask
  exactly when the asks are, each side on its own.
\<close>

theorem C3_bid_ask_presence:
  "(fetch_maxbit lit_o resp_o = Inr (Some r_o) \<longrightarrow> bid r_o \<noteq> None \<and> ask r_o \<noteq> None) \<and>
   (parse_prices txt = Inr rs \<and> r_t \<in> set rs \<longrightarrow> bid r_t \<noteq> None \<and> ask r_t \<noteq> None) \<and>
   (fetch_fx resp_f = Inr (Some r_f) \<longrightarrow> bid r_f = None \<and> ask r_f = None) \<and>
   (fetch_bitkub lit_d resp_d = Inr (Some r_d) \<or> fetch_binance_th lit_d resp_d = Inr (Some r_d) \<longrightarrow>
      (\<exists>ob. order_book r_d = Some ob \<and>
         (bid r_d = None \<longleftrightarrow> bids ob = []) \<and> (ask r_d = None \<longleftrightarrow> asks ob = [])))"
proof (intro conjI impI)
  assume "fetch_maxbit lit_o resp_o = Inr (Some r_o)"
  from maxbit_midpoint [OF this] show "bid r_o \<noteq> None" "ask r_o \<noteq> None" by auto
next
  assume "parse_prices txt = Inr rs \<and> r_t \<in> set rs"
  then have "\<exists>b a. bid r_t = Some b \<and> ask r_t = Some a \<and> price r_t = JNum ((b + a) / 2)"
    using parse_prices_midpoint by blast
  then show "bid r_t \<noteq> None" "ask r_t \<noteq> None" by auto
next
  assume "fetch_fx resp_f = Inr (Some r_f)"
  then show "bid r_f = None" "ask r_f = None" by (auto dest!: fetch_fx_Some)
next
  assume "fetch_bitkub lit_d resp_d = Inr (Some r_d) \<or> fetch_binance_th lit_d resp_d = Inr (Some r_d)"
  then show "\<exists>ob. order_book r_d = Some ob \<and>
         (bid r_d = None \<longleftrightarrow> bids ob = []) \<and> (ask r_d = None \<longleftrightarrow> asks ob = [])"
    by (auto dest!: fetch_bitkub_Some fetch_binance_th_Some depth_record_Some simp: best_None)
qed

text \<open>
  C3 as stated fails: on a book with a bid and no asks \<^verbatim>\<open>fetch_bitkub\<close> returns a
  record with a bid and without an ask.
\<close>

theorem C3_counterexample:
  "\<not> (\<forall>lit response r. fetch_bitkub lit response = Inr (Some r) \<longrightarrow>
         (bid r = None \<longleftrightarrow> ask r = None))"
proof
  assume a: "\<forall>lit response r. fetch_bitkub lit response = Inr (Some r) \<longrightarrow>
         (bid r = None \<longleftrightarrow> ask r = None)"
  obtain r where "fetch_bitkub decimal_literal (Inr one_sided_doc) = Inr (Some r)"
    and "bid r = Some 31.1" and "ask r = None"
    by (simp add: one_sided_doc_def run)
  with a show False by force
qed

text \<open>C3 on an answer of each kind.\<close>

theorem C3_witness:
  "(\<exists>r. fetch_maxbit decimal_literal (Inr accepted_doc) = Inr (Some r) \<and>
      bid r \<noteq> None \<and> ask r \<noteq> None) \<and>
   (\<exists>rs r. parse_prices both_text = Inr rs \<and> r \<in> set rs \<and> bid r \<noteq> None \<and> ask r \<noteq> None) \<and>
   (\<exists>r. fetch_fx (Inr fx_doc) = Inr (Some r) \<and> bid r = None \<and> ask r = None) \<and>
   (\<exists>r ob. fetch_bitkub decimal_literal (Inr one_sided_doc) = Inr (Some r) \<and>
      order_book r = Some ob \<and> bids ob \<noteq> [] \<and> bid r \<noteq> None \<and> asks ob = [] \<and> ask r = None)"
proof -
  obtain r_o where o: "fetch_maxbit decimal_literal (Inr accepted_doc) = Inr (Some r_o)"
    by (simp add: accepted_doc_def otc_result_def run)
  obtain rs where p: "parse_prices both_text = Inr rs" and "rs \<noteq> []"
    by (simp add: both_text_def run)
  then obtain r_t where t: "parse_prices both_text = Inr rs" "r_t \<in> set rs"
    by (cases rs) auto
  obtain r_f where f: "fetch_fx (Inr fx_doc) = Inr (Some r_f)"
    by (simp add: fx_doc_def run)
  obtain r_d where d: "fetch_bitkub decimal_literal (Inr one_sided_doc) = Inr (Some r_d)"
    and b: "order_book r_d = Some \<lparr>bids = [(31.1, 100)], asks = []\<rparr>"
    by (simp add: one_sided_doc_def run)
  note c = C3_bid_ask_presence [of decimal_literal "Inr accepted_doc" r_o both_text rs r_t
      "Inr fx_doc" r_f decimal_literal "Inr one_sided_doc" r_d]
  from c o have 1: "bid r_o \<noteq> None \<and> ask r_o \<noteq> None" by blast
  from c t have 2: "bid r_t \<noteq> None \<and> ask r_t \<noteq> None" by blast
  from c f have 3: "bid r_f = None \<and> ask r_f = None" by blast
  from c d b have 4: "bid r_d \<noteq> None \<and> ask r_d = None" by auto
  from o 1 t 2 f 3 d b 4 show ?thesis by auto
qed

end
